theory Spec2Isabelle
  imports Main
begin

section \<open>Values, exceptions and string formatting\<close>

text \<open>
  The Python values that travel through the decoder service as settings, callback
  attributes and broadcast payloads: \<^verbatim>\<open>None\<close>, booleans, integers and strings.
\<close>

datatype pyval = PNone | PBool bool | PInt int | PStr string

text \<open>Python truthiness, as used by \<^verbatim>\<open>if self._device_type:\<close> and friends.\<close>

fun truthy :: "pyval \<Rightarrow> bool" where
  "truthy PNone = False"
| "truthy (PBool b) = b"
| "truthy (PInt i) = (i \<noteq> 0)"
| "truthy (PStr s) = (s \<noteq> [])"

text \<open>
  The exceptions the source names or can meet.  All of them derive from
  \<^verbatim>\<open>Exception\<close>, so an \<^verbatim>\<open>except Exception\<close> clause catches each one.
  \<open>NoDeviceError m\<close> carries the message \<^verbatim>\<open>err[0]\<close>; \<open>SSLError fn m\<close> carries the
  function name and message the source unpacks from \<^verbatim>\<open>err[0][0]\<close>.
\<close>

datatype exn =
    NoDeviceError string
  | SSLError string string
  | CommError string
  | KeyError string
  | ValueError string
  | AttributeError string
  | NoResultFound string
  | RuntimeError string
  | OSError string
  | OtherError string



text \<open>Decimal rendering of integers, for \<^verbatim>\<open>str\<close> of an \<^verbatim>\<open>int\<close>.\<close>

fun str_nat :: "nat \<Rightarrow> string" where
  "str_nat n =
     (if n < 10 then [''0123456789'' ! n]
      else str_nat (n div 10) @ [''0123456789'' ! (n mod 10)])"

declare str_nat.simps [simp del]

definition str_int :: "int \<Rightarrow> string" where
  "str_int i = (if i < 0 then CHR ''-'' # str_nat (nat (- i)) else str_nat (nat i))"

fun py_str :: "pyval \<Rightarrow> string" where
  "py_str PNone = ''None''"
| "py_str (PBool b) = (if b then ''True'' else ''False'')"
| "py_str (PInt i) = str_int i"
| "py_str (PStr s) = s"

text \<open>
  Keyword arguments and broadcast payloads are dictionaries from names to values.
\<close>

type_synonym kwargs = "string \<rightharpoonup> pyval"

text \<open>
  \<^verbatim>\<open>template.format(**kwargs)\<close> for templates made of literal text and named
  replacement fields \<^verbatim>\<open>{name}\<close>, which is all the templates of the source use.
  The second argument is the field name read so far while the scan is inside braces.
  A name that is not a key raises \<^verbatim>\<open>KeyError\<close>; an unmatched brace raises
  \<^verbatim>\<open>ValueError\<close>.  The leftmost failure is the one raised.  Strings are byte
  strings; brace escapes, conversions and format specifications, which no template
  of the source has, are not modelled.
\<close>

fun format_from :: "string \<Rightarrow> string option \<Rightarrow> kwargs \<Rightarrow> exn + string" where
  "format_from [] None kw = Inr []"
| "format_from [] (Some f) kw = Inl (ValueError ''unmatched { in format'')"
| "format_from (c # cs) None kw =
     (if c = CHR ''{'' then format_from cs (Some []) kw
      else if c = CHR ''}'' then Inl (ValueError ''Single } encountered in format string'')
      else (case format_from cs None kw of
              Inl e \<Rightarrow> Inl e
            | Inr r \<Rightarrow> Inr (c # r)))"
| "format_from (c # cs) (Some f) kw =
     (if c = CHR ''}'' then
        (case kw f of
           None \<Rightarrow> Inl (KeyError f)
         | Some v \<Rightarrow>
             (case format_from cs None kw of
                Inl e \<Rightarrow> Inl e
              | Inr r \<Rightarrow> Inr (py_str v @ r)))
      else format_from cs (Some (f @ [c])) kw)"

definition py_format :: "string \<Rightarrow> kwargs \<Rightarrow> exn + string" where
  "py_format template kw = format_from template None kw"

section \<open>Event kinds and their messages\<close>

text \<open>
  Modelled from the spec: the event-kind constants imported from
  \<^verbatim>\<open>ad2web/log/constants.py\<close> are not part of the source at hand; the spec gives them
  as a fixed enumeration of thirteen distinct kinds.
\<close>

datatype event_type =
    ARM | DISARM | POWER_CHANGED | ALARM | FIRE | BYPASS | BOOT | CONFIG_RECEIVED
  | ZONE_FAULT | ZONE_RESTORE | LOW_BATTERY | PANIC | RELAY_CHANGED

definition CRITICAL_EVENTS :: "event_type list" where
  "CRITICAL_EVENTS =
     [POWER_CHANGED, ALARM, BYPASS, ARM, DISARM, ZONE_FAULT, ZONE_RESTORE, FIRE, PANIC]"

fun EVENT_MESSAGES :: "event_type \<Rightarrow> string" where
  "EVENT_MESSAGES ARM = ''The alarm was armed.''"
| "EVENT_MESSAGES DISARM = ''The alarm was disarmed.''"
| "EVENT_MESSAGES POWER_CHANGED = ''Power status has changed to {status}.''"
| "EVENT_MESSAGES ALARM = ''Alarm is triggered!''"
| "EVENT_MESSAGES FIRE = ''There is a fire!''"
| "EVENT_MESSAGES BYPASS = ''A zone has been bypassed.''"
| "EVENT_MESSAGES BOOT = ''The AlarmDecoder has finished booting.''"
| "EVENT_MESSAGES CONFIG_RECEIVED = ''AlarmDecoder has been configured.''"
| "EVENT_MESSAGES ZONE_FAULT = ''{zone_name} ({zone}) has been faulted.''"
| "EVENT_MESSAGES ZONE_RESTORE = ''{zone_name} ({zone}) has been restored.''"
| "EVENT_MESSAGES LOW_BATTERY = ''Low battery detected.''"
| "EVENT_MESSAGES PANIC = ''Panic!''"
| "EVENT_MESSAGES RELAY_CHANGED = ''A relay has changed.''"

section \<open>The session and its collaborators\<close>

text \<open>
  The transport object handed to the protocol wrapper, as far as the decoder service
  configures and uses it: the transport class and interface chosen by \<^verbatim>\<open>open\<close>, the
  TLS material attached to it, whether the session's callbacks are bound, the opaque
  state of the library's transport, and the three notification sources the diagnostic
  test sequencer attaches one-shot listeners to.
\<close>

datatype devicetype = SocketDevice | SerialDevice

datatype interface = Path pyval | HostPort pyval pyval

record certificate =
  certificate_obj :: string
  key_obj :: string

record device =
  dev_class :: devicetype
  dev_interface :: interface
  ssl :: bool
  ssl_ca :: "string option"
  ssl_certificate :: "string option"
  ssl_key :: "string option"
  bound :: bool
  transport :: nat
  on_config_received :: "nat list"
  on_sending_received :: "nat list"
  on_message :: "nat list"

datatype loglevel = INFO | WARNING | ERROR

datatype EventLogEntry = EventLogEntry event_type string

text \<open>The wire envelope is a dictionary of four string entries.\<close>

type_synonym packet = "string \<rightharpoonup> string"

text \<open>
  The \<^verbatim>\<open>Decoder\<close> object (without its update checker, which no handler modelled
  here reads) with its two worker threads' running flags, together with what its
  collaborators have observed so far: the listener sockets and the packets
  each session received, the application log, the committed event-log rows, the
  notification dispatches attempted, the transports constructed, the monitor's sleeps,
  and whether the web socket server was stopped and the process image replaced.
\<close>

record decoder =
  device :: "device option"
  trigger_reopen_device :: bool
  trigger_restart :: bool
  last_message :: "nat option"
  device_baudrate :: pyval
  device_type :: pyval
  device_location :: pyval
  event_thread_running :: bool
  version_thread_running :: bool
  sockets :: "(nat \<times> nat) list"
  received :: "(nat \<times> packet) list"
  applog :: "(loglevel \<times> string) list"
  eventlog :: "EventLogEntry list"
  send_attempts :: "(nat \<times> string) list"
  constructed :: "(devicetype \<times> interface) list"
  slept :: "nat list"
  websocket_stopped :: bool
  execd :: bool

text \<open>
  The collaborators outside the source, taken as parameters.  A call that can raise
  yields the exception (\<open>Some e\<close>, \<open>Inl e\<close>) or its result.
  \<^item> \<open>settings\<close>: the settings store, name to value;
  \<^item> \<open>certificates\<close>: the rows of the certificate store with a given name;
  \<^item> \<open>device_new\<close>: the transport constructor \<^verbatim>\<open>devicetype(interface=...)\<close>;
  \<^item> \<open>device_open\<close>: the library's \<^verbatim>\<open>open(baudrate=...)\<close>, giving the transport's new state;
  \<^item> \<open>device_close\<close>: the library's \<^verbatim>\<open>close()\<close> on a transport state, giving the new
    state and whether the connection-closed notification fires;
  \<^item> \<open>zone_get_name\<close>: \<^verbatim>\<open>Zone.get_name\<close>, a display name or \<^verbatim>\<open>None\<close>;
  \<^item> \<open>notifications\<close>: the identifiers \<^verbatim>\<open>NotificationFactory.notifications()\<close> lists;
  \<^item> \<open>notifier_send\<close>: \<^verbatim>\<open>NotificationFactory.create(id).send(text)\<close>;
  \<^item> \<open>db_commit\<close>: adding a row to the database session and committing it;
  \<^item> \<open>send_packet\<close>: \<^verbatim>\<open>sock.send_packet(packet)\<close> of a listener socket;
  \<^item> \<open>encode\<close>: \<^verbatim>\<open>jsonpickle.encode(data, unpicklable=False)\<close>;
  \<^item> \<open>execv\<close>: \<^verbatim>\<open>os.execv\<close>, which replaces the process image unless it raises;
  \<^item> \<open>test_settings\<close>: reading and parsing the seven settings at the head of
    \<^verbatim>\<open>_test_config\<close>, which raises when a value is missing or malformed;
  \<^item> \<open>device_save_config\<close>, \<open>device_send\<close>: the library's \<^verbatim>\<open>save_config()\<close> and
    \<^verbatim>\<open>send(data)\<close>.
\<close>

record env =
  settings :: "string \<rightharpoonup> pyval"
  certificates :: "string \<Rightarrow> certificate list"
  device_new :: "devicetype \<Rightarrow> interface \<Rightarrow> exn option"
  device_open :: "device \<Rightarrow> pyval \<Rightarrow> exn + nat"
  device_close :: "nat \<Rightarrow> nat \<times> bool"
  zone_get_name :: "pyval \<Rightarrow> exn + string option"
  notifications :: "nat list"
  notifier_send :: "nat \<Rightarrow> string \<Rightarrow> exn option"
  db_commit :: "EventLogEntry \<Rightarrow> exn option"
  send_packet :: "nat \<Rightarrow> packet \<Rightarrow> exn option"
  encode :: "kwargs \<Rightarrow> string"
  execv :: "exn option"
  test_settings :: "exn option"
  device_save_config :: "exn option"
  device_send :: "string \<Rightarrow> exn option"

definition logger :: "loglevel \<Rightarrow> string \<Rightarrow> decoder \<Rightarrow> decoder" where
  "logger lvl msg s = s\<lparr>applog := applog s @ [(lvl, msg)]\<rparr>"

section \<open>Broadcast fan-out\<close>

definition make_packet :: "string \<Rightarrow> string \<Rightarrow> packet" where
  "make_packet channel data =
     [''type'' \<mapsto> ''event'', ''name'' \<mapsto> channel, ''args'' \<mapsto> data,
      ''endpoint'' \<mapsto> ''/alarmdecoder'']"

text \<open>
  \<^verbatim>\<open>for session, sock in self.websocket.sockets.iteritems(): sock.send_packet(packet)\<close>.
  The loop has no handler of its own: the first \<^verbatim>\<open>send_packet\<close> that raises ends it.
\<close>

fun broadcast_packet ::
  "env \<Rightarrow> packet \<Rightarrow> (nat \<times> nat) list \<Rightarrow> decoder \<Rightarrow> decoder \<times> exn option" where
  "broadcast_packet ev packet [] s = (s, None)"
| "broadcast_packet ev packet ((session, sock) # rest) s =
     (case send_packet ev sock packet of
        Some e \<Rightarrow> (s, Some e)
      | None \<Rightarrow>
          broadcast_packet ev packet rest (s\<lparr>received := received s @ [(session, packet)]\<rparr>))"

definition broadcast :: "env \<Rightarrow> string \<Rightarrow> kwargs \<Rightarrow> decoder \<Rightarrow> decoder \<times> exn option" where
  "broadcast ev channel data s =
     (let obj = encode ev data;
          packet = make_packet channel obj
      in broadcast_packet ev packet (sockets s) s)"

section \<open>Event classifier and recorder\<close>

text \<open>
  The notification loop of \<^verbatim>\<open>_handle_event\<close>.  Each pass of the loop body is one
  dispatch attempt and is recorded before its outcome is known; a pass that raises
  ends the loop.
\<close>

fun notify_all :: "env \<Rightarrow> nat list \<Rightarrow> string \<Rightarrow> decoder \<Rightarrow> decoder \<times> exn option" where
  "notify_all ev [] text s = (s, None)"
| "notify_all ev (i # ids) text s =
     (let s' = s\<lparr>send_attempts := send_attempts s @ [(i, text)]\<rparr>
      in case notifier_send ev i text of
           Some e \<Rightarrow> (s', Some e)
         | None \<Rightarrow> notify_all ev ids text s')"

text \<open>
  \<^verbatim>\<open>if 'zone' in kwargs: ... kwargs['zone_name'] = zone_name if zone_name else '<unnamed>'\<close>
\<close>

definition resolve_zone :: "env \<Rightarrow> kwargs \<Rightarrow> exn + kwargs" where
  "resolve_zone ev kw =
     (case kw ''zone'' of
        None \<Rightarrow> Inr kw
      | Some z \<Rightarrow>
          (case zone_get_name ev z of
             Inl e \<Rightarrow> Inl e
           | Inr zone_name \<Rightarrow>
               Inr (kw(''zone_name'' \<mapsto>
                 PStr (case zone_name of
                         None \<Rightarrow> ''<unnamed>''
                       | Some n \<Rightarrow> if n \<noteq> [] then n else ''<unnamed>'')))))"

text \<open>The body of the \<^verbatim>\<open>try\<close> block of \<^verbatim>\<open>_handle_event\<close>.\<close>

definition handle_event_try ::
  "env \<Rightarrow> nat \<Rightarrow> event_type \<Rightarrow> kwargs \<Rightarrow> decoder \<Rightarrow> decoder \<times> exn option" where
  "handle_event_try ev now ftype kw s =
     (let s1 = s\<lparr>last_message := Some now\<rparr>
      in case resolve_zone ev kw of
           Inl e \<Rightarrow> (s1, Some e)
         | Inr kw' \<Rightarrow>
             (case py_format (EVENT_MESSAGES ftype) kw' of
                Inl e \<Rightarrow> (s1, Some e)
              | Inr event_message \<Rightarrow>
                  (case (if ftype \<in> set CRITICAL_EVENTS
                         then notify_all ev (notifications ev)
                                (''AlarmDecoder Event: '' @ event_message) s1
                         else (s1, None)) of
                     (s2, Some e) \<Rightarrow> (s2, Some e)
                   | (s2, None) \<Rightarrow>
                       (case db_commit ev (EventLogEntry ftype event_message) of
                          Some e \<Rightarrow> (s2, Some e)
                        | None \<Rightarrow>
                            broadcast ev ''event'' kw'
                              (s2\<lparr>eventlog := eventlog s2 @
                                    [EventLogEntry ftype event_message]\<rparr>)))))"

text \<open>
  \<^verbatim>\<open>_handle_event\<close>: the \<^verbatim>\<open>except Exception\<close> clause logs and returns normally, so the
  second component is what the device's callback machinery sees raised.
\<close>

definition handle_event ::
  "env \<Rightarrow> nat \<Rightarrow> event_type \<Rightarrow> kwargs \<Rightarrow> decoder \<Rightarrow> decoder \<times> exn option" where
  "handle_event ev now ftype kw s =
     (case handle_event_try ev now ftype kw s of
        (s', Some err) \<Rightarrow> (logger ERROR ''Error while broadcasting event.'' s', None)
      | (s', None) \<Rightarrow> (s', None))"

section \<open>Connection lifecycle\<close>

text \<open>
  Modelled from the spec: \<^verbatim>\<open>Setting.get_by_name(name, default).value\<close> lives in
  \<^verbatim>\<open>ad2web/settings/models.py\<close>, which is not part of the source at hand; the spec
  gives it as a key-by-name lookup returning a value and optionally a default.
\<close>

definition get_by_name :: "env \<Rightarrow> string \<Rightarrow> pyval \<Rightarrow> pyval" where
  "get_by_name ev name dflt = (case settings ev name of None \<Rightarrow> dflt | Some v \<Rightarrow> v)"

text \<open>The query method \<^verbatim>\<open>.one()\<close>: exactly one row, or an exception.\<close>

fun query_one :: "'a list \<Rightarrow> exn + 'a" where
  "query_one [] = Inl (NoResultFound ''No row was found for one()'')"
| "query_one [x] = Inr x"
| "query_one (x # y # zs) = Inl (OtherError ''Multiple rows were found for one()'')"

definition new_device :: "devicetype \<Rightarrow> interface \<Rightarrow> device" where
  "new_device dt i =
     \<lparr>dev_class = dt, dev_interface = i, ssl = False, ssl_ca = None,
      ssl_certificate = None, ssl_key = None, bound = False, transport = 0,
      on_config_received = [], on_sending_received = [], on_message = []\<rparr>"

text \<open>
  \<^verbatim>\<open>bind_events\<close> attaches the session's handlers to the device's notification sources.
\<close>

definition bind_events :: "decoder \<Rightarrow> decoder" where
  "bind_events s =
     (case device s of
        None \<Rightarrow> s
      | Some d \<Rightarrow> s\<lparr>device := Some (d\<lparr>bound := True\<rparr>)\<rparr>)"

definition on_device_open :: "env \<Rightarrow> decoder \<Rightarrow> decoder \<times> exn option" where
  "on_device_open ev s =
     (case broadcast ev ''device_open'' Map.empty
             (logger INFO ''AlarmDecoder device was opened.'' s) of
        (s1, Some e) \<Rightarrow> (s1, Some e)
      | (s1, None) \<Rightarrow> (s1\<lparr>trigger_reopen_device := False\<rparr>, None))"


text \<open>
  The \<^verbatim>\<open>try\<close> block of \<^verbatim>\<open>open\<close>.  A successful library \<^verbatim>\<open>open\<close> fires the
  connection-opened notification, which runs \<^verbatim>\<open>_on_device_open\<close>; a failing one fires
  nothing.
\<close>

definition open_try ::
  "env \<Rightarrow> devicetype \<Rightarrow> interface \<Rightarrow> pyval \<Rightarrow> decoder \<Rightarrow> decoder \<times> exn option" where
  "open_try ev devicetype interface use_ssl s =
     (case device_new ev devicetype interface of
        Some e \<Rightarrow> (s, Some e)
      | None \<Rightarrow>
          (let s1 = s\<lparr>constructed := constructed s @ [(devicetype, interface)]\<rparr>;
               dev = new_device devicetype interface
           in case (if truthy use_ssl then
                      (case query_one (certificates ev ''AlarmDecoder CA'') of
                         Inl e \<Rightarrow> Inl e
                       | Inr ca_cert \<Rightarrow>
                           (case query_one (certificates ev ''AlarmDecoder Internal'') of
                              Inl e \<Rightarrow> Inl e
                            | Inr internal_cert \<Rightarrow>
                                Inr (dev\<lparr>ssl := True,
                                         ssl_ca := Some (certificate_obj ca_cert),
                                         ssl_certificate := Some (certificate_obj internal_cert),
                                         ssl_key := Some (key_obj internal_cert)\<rparr>)))
                    else Inr dev) of
                Inl e \<Rightarrow> (s1, Some e)
              | Inr dev' \<Rightarrow>
                  (let s2 = bind_events (s1\<lparr>device := Some dev'\<rparr>);
                       bound_dev = dev'\<lparr>bound := True\<rparr>
                   in case device_open ev bound_dev (device_baudrate s2) of
                        Inl e \<Rightarrow> (s2, Some e)
                      | Inr t \<Rightarrow>
                          on_device_open ev
                            (s2\<lparr>device := Some (bound_dev\<lparr>transport := t\<rparr>)\<rparr>))))"

text \<open>The two \<^verbatim>\<open>except\<close> clauses of \<^verbatim>\<open>open\<close>: log a warning and re-raise.\<close>

fun open_except :: "decoder \<times> exn option \<Rightarrow> decoder \<times> exn option" where
  "open_except (s, Some (NoDeviceError m)) =
     (logger WARNING (''Open failed: '' @ m) s, Some (NoDeviceError m))"
| "open_except (s, Some (SSLError fn message)) =
     (logger WARNING (''SSL connection failed: '' @ fn @ '' - '' @ message) s,
      Some (SSLError fn message))"
| "open_except (s, r) = (s, r)"

definition "open" :: "env \<Rightarrow> decoder \<Rightarrow> decoder \<times> exn option" where
  "open ev s =
     (let s1 = s\<lparr>device_type := get_by_name ev ''device_type'' PNone,
                 device_location := get_by_name ev ''device_location'' PNone\<rparr>
      in if truthy (device_type s1) then
           (if device_location s1 = PStr ''local'' then
              open_except
                (open_try ev SerialDevice (Path (get_by_name ev ''device_path'' PNone))
                   (PBool False)
                   (s1\<lparr>device_baudrate := get_by_name ev ''device_baudrate'' PNone\<rparr>))
            else if device_location s1 = PStr ''network'' then
              open_except
                (open_try ev SocketDevice
                   (HostPort (get_by_name ev ''device_address'' PNone)
                      (get_by_name ev ''device_port'' PNone))
                   (get_by_name ev ''use_ssl'' (PBool False)) s1)
            else
              open_except
                (open_try ev SocketDevice (HostPort (PStr ''localhost'') (PInt 10000))
                   (PBool False) s1))
         else (s1, None))"



section \<open>Background monitor\<close>






section \<open>Diagnostic test sequencer\<close>

text \<open>
  The three timed steps share one shape: arm a timer, register a one-shot listener on
  a notification source of the device, issue a command.  Each step owns its timer (the
  flag \<open>timer_finished\<close> is the timer's \<^verbatim>\<open>finished\<close> event) and its callback closure,
  named here by a number.  \<open>removals\<close> counts the successful \<^verbatim>\<open>remove\<close> calls on the
  listener list.
\<close>

datatype test_name = Config | Send | Recv

fun test_label :: "test_name \<Rightarrow> string" where
  "test_label Config = ''config''"
| "test_label Send = ''send''"
| "test_label Recv = ''recv''"

fun listeners :: "test_name \<Rightarrow> device \<Rightarrow> nat list" where
  "listeners Config d = on_config_received d"
| "listeners Send d = on_sending_received d"
| "listeners Recv d = on_message d"

fun set_listeners :: "test_name \<Rightarrow> nat list \<Rightarrow> device \<Rightarrow> device" where
  "set_listeners Config l d = d\<lparr>on_config_received := l\<rparr>"
| "set_listeners Send l d = d\<lparr>on_sending_received := l\<rparr>"
| "set_listeners Recv l d = d\<lparr>on_message := l\<rparr>"

record test_world =
  dec :: decoder
  timer_finished :: bool
  removals :: nat

definition result_payload :: "test_name \<Rightarrow> string \<Rightarrow> string \<Rightarrow> kwargs" where
  "result_payload t results details =
     [''test'' \<mapsto> PStr (test_label t), ''results'' \<mapsto> PStr results,
      ''details'' \<mapsto> PStr details]"

text \<open>
  The statements of the timer's function and of the completion callbacks, one
  instruction per statement, so that two threads can be interleaved between
  statements:
  \<^item> \<open>IfNotFinished\<close>: the timer thread's \<^verbatim>\<open>if not self.finished.is_set():\<close> before it
    calls its function;
  \<^item> \<open>ForRegistered\<close>: the device thread calls the callback when it finds it in the
    listener list of the fired source;
  \<^item> \<open>Cancel\<close>: \<^verbatim>\<open>timer.cancel()\<close>, which sets the timer's \<^verbatim>\<open>finished\<close> event;
  \<^item> \<open>Broadcast data\<close>: \<^verbatim>\<open>self._alarmdecoder.broadcast('test', data)\<close>;
  \<^item> \<open>IfRegistered\<close>: \<^verbatim>\<open>if callback in source:\<close>, guarding the next statement;
  \<^item> \<open>Remove\<close>: \<^verbatim>\<open>source.remove(callback)\<close>, which raises when the callback is absent.
\<close>

datatype instr = IfNotFinished | ForRegistered | Cancel | Broadcast kwargs | IfRegistered | Remove



text \<open>The nested function \<^verbatim>\<open>on_timeout\<close> of each step, and the timer thread running it.\<close>

definition on_timeout :: "test_name \<Rightarrow> instr list" where
  "on_timeout t =
     [Broadcast (result_payload t ''TIMEOUT'' ''Test timed out.''), IfRegistered, Remove]"

definition timer_thread :: "test_name \<Rightarrow> instr list" where
  "timer_thread t = IfNotFinished # on_timeout t @ [Cancel]"

text \<open>
  The completion callbacks \<^verbatim>\<open>on_config_received\<close>, \<^verbatim>\<open>on_sending_received\<close> (with the
  delivery status it is called with) and \<^verbatim>\<open>on_message\<close>, in the statement order of the
  source, and the device thread firing the source.
\<close>

fun callback :: "test_name \<Rightarrow> bool \<Rightarrow> instr list" where
  "callback Config status =
     [Cancel, Broadcast (result_payload Config ''PASS'' []), IfRegistered, Remove]"
| "callback Send status =
     [Cancel, IfRegistered, Remove,
      Broadcast (if status then result_payload Send ''PASS'' []
                 else result_payload Send ''FAIL''
                        ''Check wiring and that the correct keypad address is being used.'')]"
| "callback Recv status =
     [Cancel, IfRegistered, Remove, Broadcast (result_payload Recv ''PASS'' [])]"

definition device_thread :: "test_name \<Rightarrow> bool \<Rightarrow> instr list" where
  "device_thread t status = ForRegistered # callback t status"


datatype thread = TimerThread | DeviceThread


text \<open>
  The synchronous part of a step.  \<open>register\<close> is \<^verbatim>\<open>source += callback\<close>; the
  \<^verbatim>\<open>except Exception\<close> clause cancels the timer, removes the callback if it is
  registered, broadcasts FAIL and logs.  With no device handle, the attribute access
  on \<^verbatim>\<open>None\<close> raises, in the \<^verbatim>\<open>try\<close> block and again inside the \<^verbatim>\<open>except\<close> clause.
\<close>

definition register :: "test_name \<Rightarrow> nat \<Rightarrow> test_world \<Rightarrow> exn + test_world" where
  "register t cb w =
     (case device (dec w) of
        None \<Rightarrow> Inl (AttributeError ''NoneType object has no attribute'')
      | Some d \<Rightarrow>
          Inr (w\<lparr>dec := (dec w)\<lparr>device :=
                 Some (set_listeners t (listeners t d @ [cb]) d)\<rparr>\<rparr>))"

definition test_except ::
  "env \<Rightarrow> test_name \<Rightarrow> nat \<Rightarrow> string \<Rightarrow> test_world \<Rightarrow> test_world \<times> exn option" where
  "test_except ev t cb logmsg w =
     (let w1 = w\<lparr>timer_finished := True\<rparr>
      in case device (dec w1) of
           None \<Rightarrow> (w1, Some (AttributeError ''NoneType object has no attribute''))
         | Some d \<Rightarrow>
             (let w2 = (if cb \<in> set (listeners t d) then
                          w1\<lparr>dec := (dec w1)\<lparr>device :=
                                Some (set_listeners t (remove1 cb (listeners t d)) d)\<rparr>,
                             removals := removals w1 + 1\<rparr>
                        else w1)
              in case broadcast ev ''test''
                        (result_payload t ''FAIL''
                           ''There was an error sending the command to the device.'')
                        (dec w2) of
                   (s, Some e) \<Rightarrow> (w2\<lparr>dec := s\<rparr>, Some e)
                 | (s, None) \<Rightarrow> (w2\<lparr>dec := logger ERROR logmsg s\<rparr>, None)))"

definition test_config :: "env \<Rightarrow> nat \<Rightarrow> test_world \<Rightarrow> test_world \<times> exn option" where
  "test_config ev cb w =
     (let w1 = w\<lparr>timer_finished := False\<rparr>
      in case test_settings ev of
           Some e \<Rightarrow> test_except ev Config cb ''Error while testing device config.'' w1
         | None \<Rightarrow>
             (case register Config cb w1 of
                Inl e \<Rightarrow> test_except ev Config cb ''Error while testing device config.'' w1
              | Inr w2 \<Rightarrow>
                  (case device_save_config ev of
                     Some e \<Rightarrow>
                       test_except ev Config cb ''Error while testing device config.'' w2
                   | None \<Rightarrow> (w2, None))))"

definition test_send :: "env \<Rightarrow> nat \<Rightarrow> test_world \<Rightarrow> test_world \<times> exn option" where
  "test_send ev cb w =
     (let w1 = w\<lparr>timer_finished := False\<rparr>
      in case register Send cb w1 of
           Inl e \<Rightarrow> test_except ev Send cb ''Error while testing keypad communication.'' w1
         | Inr w2 \<Rightarrow>
             (case device_send ev [CHR ''*'', CHR 0x0D] of
                Some e \<Rightarrow>
                  test_except ev Send cb ''Error while testing keypad communication.'' w2
              | None \<Rightarrow> (w2, None)))"

definition test_receive :: "env \<Rightarrow> nat \<Rightarrow> test_world \<Rightarrow> test_world \<times> exn option" where
  "test_receive ev cb w =
     (let w1 = w\<lparr>timer_finished := False\<rparr>
      in case register Recv cb w1 of
           Inl e \<Rightarrow> test_except ev Recv cb ''Error while testing keypad communication.'' w1
         | Inr w2 \<Rightarrow>
             (case device_send ev [CHR ''*'', CHR 0x0D] of
                Some e \<Rightarrow>
                  test_except ev Recv cb ''Error while testing keypad communication.'' w2
              | None \<Rightarrow> (w2, None)))"

fun test_step :: "env \<Rightarrow> test_name \<Rightarrow> nat \<Rightarrow> test_world \<Rightarrow> test_world \<times> exn option" where
  "test_step ev Config cb w = test_config ev cb w"
| "test_step ev Send cb w = test_send ev cb w"
| "test_step ev Recv cb w = test_receive ev cb w"

section \<open>Statement vocabulary and concrete scenarios\<close>

text \<open>
  The first exception a list of collaborator calls meets, scanning the list in order;
  \<open>None\<close> when every call returns.
\<close>

definition first_failure :: "('a \<Rightarrow> exn option) \<Rightarrow> 'a list \<Rightarrow> exn option" where
  "first_failure f xs =
     (case dropWhile (\<lambda>x. f x = None) xs of [] \<Rightarrow> None | x # rest \<Rightarrow> f x)"

text \<open>Delivery of a packet to a listener (session, socket) succeeds.\<close>

definition delivers :: "env \<Rightarrow> packet \<Rightarrow> nat \<times> nat \<Rightarrow> bool" where
  "delivers ev packet l = (send_packet ev (snd l) packet = None)"

text \<open>Dispatch of a text to a notification target succeeds.\<close>

definition dispatches :: "env \<Rightarrow> string \<Rightarrow> nat \<Rightarrow> bool" where
  "dispatches ev text i = (notifier_send ev i text = None)"

text \<open>
  The state \<^verbatim>\<open>Decoder.__init__\<close> builds, with no listener connected and nothing observed
  yet by any collaborator.
\<close>

definition init_decoder :: decoder where
  "init_decoder =
     \<lparr>device = None, trigger_reopen_device = False, trigger_restart = False,
      last_message = None, device_baudrate = PInt 115200, device_type = PNone,
      device_location = PNone, event_thread_running = False,
      version_thread_running = False, sockets = [], received = [], applog = [],
      eventlog = [], send_attempts = [], constructed = [], slept = [],
      websocket_stopped = False, execd = False\<rparr>"

text \<open>
  An environment in which every collaborator call returns: no settings stored, no
  certificates, no notification targets, no zone names; a transport that opens into
  state 1 and closes into state 0, firing its closed notification when it was open.
\<close>

definition quiet_env :: env where
  "quiet_env =
     \<lparr>settings = Map.empty, certificates = (\<lambda>name. []), device_new = (\<lambda>dt i. None),
      device_open = (\<lambda>d baud. Inr 1), device_close = (\<lambda>t. (0, t \<noteq> 0)),
      zone_get_name = (\<lambda>z. Inr None), notifications = [],
      notifier_send = (\<lambda>i text. None), db_commit = (\<lambda>entry. None),
      send_packet = (\<lambda>sock p. None), encode = (\<lambda>data. ''{}''), execv = None,
      test_settings = None, device_save_config = None, device_send = (\<lambda>data. None)\<rparr>"

text \<open>Two notification targets, the first of which fails.\<close>

definition failing_notifier_env :: env where
  "failing_notifier_env =
     quiet_env\<lparr>notifications := [1, 2],
               notifier_send := (\<lambda>i text. if i = 1 then Some (OtherError ''smtp down'') else None)\<rparr>"

text \<open>Three listeners; delivery to the socket of the second one fails.\<close>

definition three_listeners :: decoder where
  "three_listeners = init_decoder\<lparr>sockets := [(10, 1), (20, 2), (30, 3)]\<rparr>"

definition failing_socket_env :: env where
  "failing_socket_env =
     quiet_env\<lparr>send_packet := (\<lambda>sock p. if sock = 2 then Some (OtherError ''socket closed'') else None)\<rparr>"

text \<open>Two notification targets, both of which accept every dispatch.\<close>

definition two_notifiers_env :: env where
  "two_notifiers_env = quiet_env\<lparr>notifications := [1, 2]\<rparr>"

text \<open>
  What the broadcast fan-out, the log and the connection lifecycle leave alone: the
  restart trigger, the worker threads' flags, and what the other collaborators hold.
\<close>

definition lifecycle_frame :: "decoder \<Rightarrow> decoder \<Rightarrow> bool" where
  "lifecycle_frame s s' \<longleftrightarrow>
     trigger_restart s' = trigger_restart s \<and>
     event_thread_running s' = event_thread_running s \<and>
     version_thread_running s' = version_thread_running s \<and>
     execd s' = execd s \<and> slept s' = slept s \<and> sockets s' = sockets s \<and>
     websocket_stopped s' = websocket_stopped s \<and> eventlog s' = eventlog s \<and>
     send_attempts s' = send_attempts s \<and> last_message s' = last_message s"









text \<open>
  The two schedules in which the timer thread and the device thread do not overlap:
  each thread has at most five statements, and one runs all of its statements before
  the other starts.
\<close>

definition timer_first :: "thread list" where
  "timer_first =
     [TimerThread, TimerThread, TimerThread, TimerThread, TimerThread,
      DeviceThread, DeviceThread, DeviceThread, DeviceThread, DeviceThread]"

definition callback_first :: "thread list" where
  "callback_first =
     [DeviceThread, DeviceThread, DeviceThread, DeviceThread, DeviceThread,
      TimerThread, TimerThread, TimerThread, TimerThread, TimerThread]"








text \<open>The payload a test outcome is broadcast with.\<close>

definition outcome_packet :: "env \<Rightarrow> test_name \<Rightarrow> string \<Rightarrow> string \<Rightarrow> packet" where
  "outcome_packet ev t results details =
     make_packet ''test'' (encode ev (result_payload t results details))"



section \<open>Loops over collaborators\<close>

lemma first_failure_simps:
  "first_failure f [] = None"
  "first_failure f (x # xs) = (case f x of None \<Rightarrow> first_failure f xs | Some e \<Rightarrow> Some e)"
  by (auto simp: first_failure_def split: option.splits)

lemma first_failure_None: "first_failure f xs = None \<longleftrightarrow> list_all (\<lambda>x. f x = None) xs"
  by (induction xs) (auto simp: first_failure_simps split: option.splits)

text \<open>
  The delivery loop touches nothing but the listeners' inboxes: the listeners before
  the first failing one receive the packet, and the first failure is what the loop
  raises.
\<close>

lemma broadcast_packet_eq:
  "broadcast_packet ev p socks s =
     (s\<lparr>received := received s @ map (\<lambda>l. (fst l, p)) (takeWhile (delivers ev p) socks)\<rparr>,
      first_failure (\<lambda>l. send_packet ev (snd l) p) socks)"
  by (induction socks arbitrary: s)
     (auto simp: delivers_def first_failure_simps split: option.splits)

lemma broadcast_eq:
  "broadcast ev channel data s =
     (s\<lparr>received := received s @
          map (\<lambda>l. (fst l, make_packet channel (encode ev data)))
            (takeWhile (delivers ev (make_packet channel (encode ev data))) (sockets s))\<rparr>,
      first_failure (\<lambda>l. send_packet ev (snd l) (make_packet channel (encode ev data)))
        (sockets s))"
  by (simp add: broadcast_def Let_def broadcast_packet_eq)

text \<open>
  The notification loop attempts the targets up to and including the first failing
  one.
\<close>

lemma notify_all_eq:
  "notify_all ev ids text s =
     (s\<lparr>send_attempts := send_attempts s @
          map (\<lambda>i. (i, text))
            (takeWhile (dispatches ev text) ids @ take 1 (dropWhile (dispatches ev text) ids))\<rparr>,
      first_failure (\<lambda>i. notifier_send ev i text) ids)"
  by (induction ids arbitrary: s)
     (auto simp: dispatches_def Let_def first_failure_simps split: option.splits)

section \<open>Properties of the event handler\<close>

lemma handle_event_raises_nothing: "snd (handle_event ev now ftype kw s) = None"
  by (simp add: handle_event_def split: prod.splits option.splits)

lemma handle_event_fields:
  "send_attempts (fst (handle_event ev now ftype kw s)) =
     send_attempts (fst (handle_event_try ev now ftype kw s))"
  "eventlog (fst (handle_event ev now ftype kw s)) =
     eventlog (fst (handle_event_try ev now ftype kw s))"
  "last_message (fst (handle_event ev now ftype kw s)) =
     last_message (fst (handle_event_try ev now ftype kw s))"
  by (simp_all add: handle_event_def logger_def split: prod.splits option.splits)

lemma handle_event_try_last_message:
  "last_message (fst (handle_event_try ev now ftype kw s)) = Some now"
  by (simp add: handle_event_try_def Let_def notify_all_eq broadcast_eq
        split: sum.splits option.splits)

lemma noncritical_kinds:
  "ftype \<notin> set CRITICAL_EVENTS \<longleftrightarrow>
   ftype = BOOT \<or> ftype = CONFIG_RECEIVED \<or> ftype = LOW_BATTERY \<or> ftype = RELAY_CHANGED"
  by (cases ftype) (simp_all add: CRITICAL_EVENTS_def)

lemma noncritical_format:
  "ftype \<notin> set CRITICAL_EVENTS \<Longrightarrow>
   py_format (EVENT_MESSAGES ftype) kw = Inr (EVENT_MESSAGES ftype)"
  by (cases ftype) (simp_all add: CRITICAL_EVENTS_def py_format_def)

lemma handle_event_try_critical:
  assumes "ftype \<in> set CRITICAL_EVENTS"
    and "resolve_zone ev kw = Inr kw'"
    and "py_format (EVENT_MESSAGES ftype) kw' = Inr msg"
  shows "send_attempts (fst (handle_event_try ev now ftype kw s)) =
           send_attempts s @ map (\<lambda>i. (i, ''AlarmDecoder Event: '' @ msg))
             (takeWhile (dispatches ev (''AlarmDecoder Event: '' @ msg)) (notifications ev) @
              take 1 (dropWhile (dispatches ev (''AlarmDecoder Event: '' @ msg))
                        (notifications ev)))"
    and "eventlog (fst (handle_event_try ev now ftype kw s)) =
           (if list_all (dispatches ev (''AlarmDecoder Event: '' @ msg)) (notifications ev) \<and>
               db_commit ev (EventLogEntry ftype msg) = None
            then eventlog s @ [EventLogEntry ftype msg] else eventlog s)"
  using assms
  by (simp_all add: handle_event_try_def Let_def notify_all_eq broadcast_eq
        first_failure_None [symmetric] dispatches_def [abs_def] split: option.splits)

lemma handle_event_try_noncritical:
  assumes "ftype \<notin> set CRITICAL_EVENTS"
  shows "send_attempts (fst (handle_event_try ev now ftype kw s)) = send_attempts s"
    and "resolve_zone ev kw = Inr kw' \<Longrightarrow>
         db_commit ev (EventLogEntry ftype (EVENT_MESSAGES ftype)) = None \<Longrightarrow>
         eventlog (fst (handle_event_try ev now ftype kw s)) =
           eventlog s @ [EventLogEntry ftype (EVENT_MESSAGES ftype)]"
  using assms
  by (simp_all add: handle_event_try_def Let_def noncritical_format broadcast_eq
        split: option.splits sum.splits)





text \<open>
  Claim C10.  For every classified event callback the session's last-message
  timestamp is set to the current time before any fallible work starts: whatever the
  zone lookup, the formatting, the notification dispatch, the event-log commit and
  the broadcast do, fail or not, the state the handler leaves holds the time the
  callback was entered with.
\<close>

theorem handle_event_last_message:
  "last_message (fst (handle_event ev now ftype kw s)) = Some now"
  by (simp add: handle_event_fields handle_event_try_last_message)

text \<open>
  Claim C1, as stated, fails: the notification loop has no handler of its own, so a
  dispatch that raises ends the loop and skips the commit.  With two targets of which
  the first fails, an alarm event leaves the event log empty and never attempts the
  second target.
\<close>

theorem notifier_failure_suppresses_record:
  "eventlog (fst (handle_event failing_notifier_env 100 ALARM Map.empty init_decoder)) = [] \<and>
   send_attempts (fst (handle_event failing_notifier_env 100 ALARM Map.empty init_decoder)) =
     [(1, ''AlarmDecoder Event: Alarm is triggered!'')]"
  by (simp add: handle_event_def handle_event_try_def resolve_zone_def py_format_def
        CRITICAL_EVENTS_def failing_notifier_env_def quiet_env_def init_decoder_def logger_def)

text \<open>
  Claim C1, amended.  For every event kind in the critical subset whose zone lookup
  returns and whose message formats, handling one callback attempts dispatch of
  \<open>AlarmDecoder Event: <message>\<close> to the configured targets in order, up to and
  including the first target whose dispatch fails; it persists exactly one event-log
  row with the kind and the formatted message when every dispatch and the commit
  succeed, and none otherwise; and it raises nothing to its caller.
\<close>

theorem critical_event_dispatch_and_record:
  assumes "ftype \<in> set CRITICAL_EVENTS"
    and "resolve_zone ev kw = Inr kw'"
    and "py_format (EVENT_MESSAGES ftype) kw' = Inr msg"
  shows "send_attempts (fst (handle_event ev now ftype kw s)) =
           send_attempts s @ map (\<lambda>i. (i, ''AlarmDecoder Event: '' @ msg))
             (takeWhile (dispatches ev (''AlarmDecoder Event: '' @ msg)) (notifications ev) @
              take 1 (dropWhile (dispatches ev (''AlarmDecoder Event: '' @ msg))
                        (notifications ev)))
       \<and> eventlog (fst (handle_event ev now ftype kw s)) =
           (if list_all (dispatches ev (''AlarmDecoder Event: '' @ msg)) (notifications ev) \<and>
               db_commit ev (EventLogEntry ftype msg) = None
            then eventlog s @ [EventLogEntry ftype msg] else eventlog s)
       \<and> snd (handle_event ev now ftype kw s) = None"
  using handle_event_try_critical [OF assms]
  by (simp add: handle_event_fields handle_event_raises_nothing)

theorem critical_event_dispatch_and_record_witness:
  "ALARM \<in> set CRITICAL_EVENTS \<and>
   resolve_zone two_notifiers_env Map.empty = Inr Map.empty \<and>
   py_format (EVENT_MESSAGES ALARM) Map.empty = Inr ''Alarm is triggered!'' \<and>
   send_attempts (fst (handle_event two_notifiers_env 100 ALARM Map.empty init_decoder)) =
     [(1, ''AlarmDecoder Event: Alarm is triggered!''),
      (2, ''AlarmDecoder Event: Alarm is triggered!'')] \<and>
   eventlog (fst (handle_event two_notifiers_env 100 ALARM Map.empty init_decoder)) =
     [EventLogEntry ALARM ''Alarm is triggered!'']"
proof -
  have c: "ALARM \<in> set CRITICAL_EVENTS"
    by (simp add: CRITICAL_EVENTS_def)
  have z: "resolve_zone two_notifiers_env Map.empty = Inr Map.empty"
    by (simp add: resolve_zone_def)
  have f: "py_format (EVENT_MESSAGES ALARM) Map.empty = Inr ''Alarm is triggered!''"
    by (simp add: py_format_def)
  show ?thesis
    using c z f critical_event_dispatch_and_record [OF c z f, of 100 init_decoder]
    by (simp add: two_notifiers_env_def quiet_env_def init_decoder_def dispatches_def)
qed

text \<open>
  Claim C7.  For every event kind outside the critical subset (boot,
  config-received, low-battery, relay-changed: lemma \<open>noncritical_kinds\<close>), handling
  one callback makes no notification-dispatch attempt, and, when the zone lookup
  returns and the store accepts the commit, persists exactly one event-log row, with
  the kind and the kind's message.
\<close>

theorem noncritical_event_record_without_dispatch:
  assumes "ftype \<notin> set CRITICAL_EVENTS"
  shows "send_attempts (fst (handle_event ev now ftype kw s)) = send_attempts s \<and>
         ((\<exists>kw'. resolve_zone ev kw = Inr kw') \<and>
          db_commit ev (EventLogEntry ftype (EVENT_MESSAGES ftype)) = None \<longrightarrow>
          eventlog (fst (handle_event ev now ftype kw s)) =
            eventlog s @ [EventLogEntry ftype (EVENT_MESSAGES ftype)])"
  using handle_event_try_noncritical [OF assms]
  by (auto simp: handle_event_fields)

theorem noncritical_event_record_without_dispatch_witness:
  "BOOT \<notin> set CRITICAL_EVENTS \<and>
   resolve_zone two_notifiers_env Map.empty = Inr Map.empty \<and>
   db_commit two_notifiers_env (EventLogEntry BOOT (EVENT_MESSAGES BOOT)) = None \<and>
   send_attempts (fst (handle_event two_notifiers_env 100 BOOT Map.empty init_decoder)) = [] \<and>
   eventlog (fst (handle_event two_notifiers_env 100 BOOT Map.empty init_decoder)) =
     [EventLogEntry BOOT ''The AlarmDecoder has finished booting.'']"
proof -
  have c: "BOOT \<notin> set CRITICAL_EVENTS"
    by (simp add: CRITICAL_EVENTS_def)
  have z: "resolve_zone two_notifiers_env Map.empty = Inr Map.empty"
    by (simp add: resolve_zone_def)
  have d: "db_commit two_notifiers_env (EventLogEntry BOOT (EVENT_MESSAGES BOOT)) = None"
    by (simp add: two_notifiers_env_def quiet_env_def)
  show ?thesis
    using c z d
      noncritical_event_record_without_dispatch
        [OF c, where ev = two_notifiers_env and now = 100 and kw = Map.empty
           and s = init_decoder]
    by (simp add: init_decoder_def)
qed



section \<open>Properties of the broadcast fan-out\<close>

text \<open>
  Claim C3, as stated, fails: the delivery loop has no handler of its own, so a
  \<^verbatim>\<open>send_packet\<close> that raises ends the loop.  With three listeners of which the second
  fails, only the first receives the envelope, the third receives nothing, and the
  failure is raised to the caller of \<^verbatim>\<open>broadcast\<close>.
\<close>

theorem listener_failure_aborts_broadcast:
  "received (fst (broadcast failing_socket_env ''event'' Map.empty three_listeners)) =
     [(10, make_packet ''event'' ''{}'')] \<and>
   snd (broadcast failing_socket_env ''event'' Map.empty three_listeners) =
     Some (OtherError ''socket closed'')"
  by (simp add: broadcast_def failing_socket_env_def quiet_env_def three_listeners_def
        init_decoder_def)

text \<open>
  Claim C3, amended.  For every channel and payload, \<^verbatim>\<open>broadcast\<close> builds the envelope
  with type \<^verbatim>\<open>event\<close>, the channel as name, the serialised payload as args and the
  fixed endpoint \<^verbatim>\<open>/alarmdecoder\<close>, and delivers one copy of it to the registered
  listeners in iteration order up to the first listener whose delivery fails; that
  failure is raised to the caller.  When no delivery fails, every registered listener
  receives exactly one copy and nothing is raised.
\<close>

theorem broadcast_until_first_failure:
  "make_packet channel (encode ev data) =
     [''type'' \<mapsto> ''event'', ''name'' \<mapsto> channel, ''args'' \<mapsto> encode ev data,
      ''endpoint'' \<mapsto> ''/alarmdecoder''] \<and>
   received (fst (broadcast ev channel data s)) =
     received s @ map (\<lambda>l. (fst l, make_packet channel (encode ev data)))
       (takeWhile (delivers ev (make_packet channel (encode ev data))) (sockets s)) \<and>
   snd (broadcast ev channel data s) =
     first_failure (\<lambda>l. send_packet ev (snd l) (make_packet channel (encode ev data)))
       (sockets s) \<and>
   (list_all (delivers ev (make_packet channel (encode ev data))) (sockets s) \<longrightarrow>
      received (fst (broadcast ev channel data s)) =
        received s @ map (\<lambda>l. (fst l, make_packet channel (encode ev data))) (sockets s) \<and>
      snd (broadcast ev channel data s) = None)"
proof -
  let ?p = "make_packet channel (encode ev data)"
  have p: "?p = [''type'' \<mapsto> ''event'', ''name'' \<mapsto> channel, ''args'' \<mapsto> encode ev data,
      ''endpoint'' \<mapsto> ''/alarmdecoder'']"
    by (simp add: make_packet_def)
  have r: "received (fst (broadcast ev channel data s)) =
     received s @ map (\<lambda>l. (fst l, ?p)) (takeWhile (delivers ev ?p) (sockets s))"
    by (simp add: broadcast_eq)
  have e: "snd (broadcast ev channel data s) =
     first_failure (\<lambda>l. send_packet ev (snd l) ?p) (sockets s)"
    by (simp add: broadcast_eq)
  have a: "received (fst (broadcast ev channel data s)) =
        received s @ map (\<lambda>l. (fst l, ?p)) (sockets s) \<and>
      snd (broadcast ev channel data s) = None"
    if ok: "list_all (delivers ev ?p) (sockets s)"
  proof -
    from ok have tw: "takeWhile (delivers ev ?p) (sockets s) = sockets s"
      by (simp add: list_all_iff)
    from ok have ff: "first_failure (\<lambda>l. send_packet ev (snd l) ?p) (sockets s) = None"
      by (simp add: first_failure_None delivers_def [abs_def])
    show ?thesis
      unfolding r e tw ff by simp
  qed
  from p r e a show ?thesis
    by blast
qed

theorem broadcast_until_first_failure_witness:
  "list_all (delivers quiet_env (make_packet ''event'' (encode quiet_env Map.empty)))
     (sockets three_listeners) \<and>
   received (fst (broadcast quiet_env ''event'' Map.empty three_listeners)) =
     [(10, make_packet ''event'' ''{}''), (20, make_packet ''event'' ''{}''),
      (30, make_packet ''event'' ''{}'')] \<and>
   snd (broadcast quiet_env ''event'' Map.empty three_listeners) = None"
proof -
  have h: "list_all (delivers quiet_env (make_packet ''event'' (encode quiet_env Map.empty)))
     (sockets three_listeners)"
    by (simp add: quiet_env_def three_listeners_def delivers_def)
  have e: "encode quiet_env Map.empty = ''{}''"
    by (simp add: quiet_env_def)
  from h broadcast_until_first_failure
    [where ev = quiet_env and channel = "''event''" and data = Map.empty
       and s = three_listeners]
  have "received (fst (broadcast quiet_env ''event'' Map.empty three_listeners)) =
        received three_listeners @
          map (\<lambda>l. (fst l, make_packet ''event'' (encode quiet_env Map.empty)))
            (sockets three_listeners) \<and>
        snd (broadcast quiet_env ''event'' Map.empty three_listeners) = None"
    by blast
  with h show ?thesis
    by (simp add: e three_listeners_def init_decoder_def)
qed

section \<open>Properties of the connection lifecycle\<close>



lemma broadcast_frame: "lifecycle_frame s (fst (broadcast ev c d s))"
  by (simp add: broadcast_eq lifecycle_frame_def)


lemma on_device_open_frame: "lifecycle_frame s (fst (on_device_open ev s))"
  by (simp add: on_device_open_def broadcast_eq logger_def lifecycle_frame_def
        split: option.splits)

lemma on_device_open_raised:
  "on_device_open ev s = (s', Some e) \<Longrightarrow> trigger_reopen_device s' = trigger_reopen_device s"
  by (auto simp: on_device_open_def broadcast_eq logger_def split: option.splits)





















section \<open>Properties of the background monitor\<close>

















section \<open>Claims about the connection lifecycle and the monitor\<close>



text \<open>
  Claim C8.  \<^verbatim>\<open>open\<close> with no device type configured (the setting is absent, \<^verbatim>\<open>None\<close>
  or empty) is a no-op: it refreshes the cached device type and location and nothing
  else, so no transport is constructed, the device handle, the reopen trigger, the
  listeners' inboxes and the log are unchanged, and nothing is raised.
\<close>

theorem open_unconfigured_is_noop:
  assumes "\<not> truthy (get_by_name ev ''device_type'' PNone)"
  shows "open ev s =
           (s\<lparr>device_type := get_by_name ev ''device_type'' PNone,
              device_location := get_by_name ev ''device_location'' PNone\<rparr>, None) \<and>
         snd (open ev s) = None \<and>
         device (fst (open ev s)) = device s \<and>
         constructed (fst (open ev s)) = constructed s \<and>
         trigger_reopen_device (fst (open ev s)) = trigger_reopen_device s \<and>
         received (fst (open ev s)) = received s \<and>
         applog (fst (open ev s)) = applog s"
  using assms by (simp add: open_def Let_def)

theorem open_unconfigured_is_noop_witness:
  "\<not> truthy (get_by_name quiet_env ''device_type'' PNone) \<and>
   open quiet_env init_decoder = (init_decoder, None)"
proof -
  have h: "\<not> truthy (get_by_name quiet_env ''device_type'' PNone)"
    by (simp add: get_by_name_def quiet_env_def)
  from h open_unconfigured_is_noop [OF h, of init_decoder] show ?thesis
    by (simp add: get_by_name_def quiet_env_def init_decoder_def)
qed





section \<open>Properties of the diagnostic test steps\<close>





lemmas step_defs =
  test_config_def test_send_def test_receive_def register_def test_except_def
  timer_thread_def on_timeout_def device_thread_def timer_first_def callback_first_def
  outcome_packet_def logger_def Let_def










text \<open>
  Without a device handle the attribute access on \<^verbatim>\<open>None\<close> raises in the \<^verbatim>\<open>try\<close> block
  and again in the \<^verbatim>\<open>except\<close> clause: the step raises and broadcasts nothing.
\<close>

lemma test_step_without_device:
  assumes "device (dec w) = None"
  shows "test_step ev t cb w =
           (w\<lparr>timer_finished := True\<rparr>,
            Some (AttributeError ''NoneType object has no attribute''))"
  using assms
  by (cases t; cases "test_settings ev") (simp_all add: step_defs)

section \<open>Claims about the diagnostic test steps\<close>




end
